theory Spec2Isabelle
  imports Complex_Main "HOL-Library.Word" "HOL-Library.Sublist" "HOL-Library.AList"
begin

text \<open>
  The application form (\<open>src/components/forms/ApplicationForm.tsx\<close>) and the page of
  the user's applications (\<open>src/app/user/applications/page.tsx\<close>) of the job portal, as
  functions: a handler takes the state of its component and what the host provides, and
  returns the state it leaves with the list of its effects (requests, console entries,
  alerts, callbacks, navigation) in the order they happen. An exception is a value
  (\<open>Inl\<close>) that the enclosing \<open>catch\<close> receives.
\<close>

section \<open>JavaScript strings\<close>

text \<open>
  A JavaScript string is a sequence of UTF-16 code units. String literals of the source
  are ASCII and are written through \<open>js\<close>.
\<close>

type_synonym cu = "16 word"
type_synonym jstring = "cu list"

definition js :: "string \<Rightarrow> jstring" where
  "js s = map of_char s"

text \<open>
  The code units that \<open>String.prototype.trim\<close> strips and that the regular-expression
  class \<open>\s\<close> matches (WhiteSpace and LineTerminator of ECMAScript); \<open>\S\<close> is the
  complement.
\<close>

definition isWhiteSpace :: "cu \<Rightarrow> bool" where
  "isWhiteSpace c =
     (c = 0x9 \<or> c = 0xA \<or> c = 0xB \<or> c = 0xC \<or> c = 0xD \<or> c = 0x20 \<or> c = 0xA0
      \<or> c = 0x1680 \<or> (0x2000 \<le> c \<and> c \<le> 0x200A) \<or> c = 0x2028 \<or> c = 0x2029
      \<or> c = 0x202F \<or> c = 0x205F \<or> c = 0x3000 \<or> c = 0xFEFF)"

definition trim :: "jstring \<Rightarrow> jstring" where
  "trim s = rev (dropWhile isWhiteSpace (rev (dropWhile isWhiteSpace s)))"

text \<open>\<open>s.includes(sub)\<close>: \<open>sub\<close> occurs in \<open>s\<close> as a contiguous run of code units.\<close>

fun js_includes :: "jstring \<Rightarrow> jstring \<Rightarrow> bool" where
  "js_includes [] sub = (sub = [])"
| "js_includes (c # s) sub = (prefix sub (c # s) \<or> js_includes s sub)"

text \<open>Decimal rendering of a number inside a template literal (an HTTP status).\<close>

definition digit :: "nat \<Rightarrow> cu" where
  "digit d = of_nat (48 + d)"

fun show_nat :: "nat \<Rightarrow> jstring" where
  "show_nat n = (if n < 10 then [digit n] else show_nat (n div 10) @ [digit (n mod 10)])"

declare show_nat.simps [simp del]

section \<open>Regular expressions\<close>

text \<open>
  The fragment of regular expressions the source uses: character atoms, sequence and
  \<open>+\<close>, completed by the constructors a derivative needs. \<open>test\<close> succeeds when some
  run of the subject matches, as \<open>RegExp.prototype.test\<close> does for a pattern without
  anchors.
\<close>

datatype atom = NonSpace | Lit cu

datatype regex =
    Fail
  | Eps
  | Sym atom
  | Alt regex regex
  | Seq regex regex
  | Star regex

definition Plus1 :: "regex \<Rightarrow> regex" where
  "Plus1 r = Seq r (Star r)"

fun accepts :: "atom \<Rightarrow> cu \<Rightarrow> bool" where
  "accepts NonSpace c = (\<not> isWhiteSpace c)"
| "accepts (Lit a) c = (c = a)"

fun nullable :: "regex \<Rightarrow> bool" where
  "nullable Fail = False"
| "nullable Eps = True"
| "nullable (Sym a) = False"
| "nullable (Alt r s) = (nullable r \<or> nullable s)"
| "nullable (Seq r s) = (nullable r \<and> nullable s)"
| "nullable (Star r) = True"

fun deriv :: "cu \<Rightarrow> regex \<Rightarrow> regex" where
  "deriv c Fail = Fail"
| "deriv c Eps = Fail"
| "deriv c (Sym a) = (if accepts a c then Eps else Fail)"
| "deriv c (Alt r s) = Alt (deriv c r) (deriv c s)"
| "deriv c (Seq r s) =
     (if nullable r then Alt (Seq (deriv c r) s) (deriv c s) else Seq (deriv c r) s)"
| "deriv c (Star r) = Seq (deriv c r) (Star r)"

fun matches :: "regex \<Rightarrow> jstring \<Rightarrow> bool" where
  "matches r [] = nullable r"
| "matches r (c # s) = matches (deriv c r) s"

definition test :: "regex \<Rightarrow> jstring \<Rightarrow> bool" where
  "test r s = list_ex (\<lambda>t. list_ex (matches r) (prefixes t)) (suffixes s)"

text \<open>The literal \<^verbatim>\<open>/\S+@\S+\.\S+/\<close> of \<open>validateForm\<close>.\<close>

definition email_regex :: regex where
  "email_regex =
     Seq (Plus1 (Sym NonSpace))
       (Seq (Sym (Lit 0x40))
         (Seq (Plus1 (Sym NonSpace))
           (Seq (Sym (Lit 0x2E)) (Plus1 (Sym NonSpace)))))"

text \<open>The language of a regular expression, to state what \<open>matches\<close> decides.\<close>

definition conc :: "jstring set \<Rightarrow> jstring set \<Rightarrow> jstring set" where
  "conc A B = {u @ v | u v. u \<in> A \<and> v \<in> B}"

inductive_set star :: "jstring set \<Rightarrow> jstring set" for A :: "jstring set" where
  star_nil: "[] \<in> star A"
| star_app: "u \<in> A \<Longrightarrow> v \<in> star A \<Longrightarrow> u @ v \<in> star A"

fun lang :: "regex \<Rightarrow> jstring set" where
  "lang Fail = {}"
| "lang Eps = {[]}"
| "lang (Sym a) = {[c] | c. accepts a c}"
| "lang (Alt r s) = lang r \<union> lang s"
| "lang (Seq r s) = conc (lang r) (lang s)"
| "lang (Star r) = star (lang r)"

text \<open>
  The pattern in the words of the specification: one or more non-space characters, an at
  sign, one or more non-space characters, a dot, one or more non-space characters.
\<close>

definition nonspaces :: "jstring \<Rightarrow> bool" where
  "nonspaces s = (s \<noteq> [] \<and> (\<forall>c \<in> set s. \<not> isWhiteSpace c))"

definition email_shape :: "jstring \<Rightarrow> bool" where
  "email_shape s =
     (\<exists>a b c. s = a @ [0x40] @ b @ [0x2E] @ c \<and> nonspaces a \<and> nonspaces b \<and> nonspaces c)"

text \<open>Some part of the string has that shape: what a search for the pattern finds.\<close>

definition email_pattern :: "jstring \<Rightarrow> bool" where
  "email_pattern s = (\<exists>pre m post. s = pre @ m @ post \<and> email_shape m)"

section \<open>JavaScript values\<close>

text \<open>
  The values the code handles without a static type: what \<open>response.json()\<close> resolves
  to, and \<open>undefined\<close>, which reading an absent property gives. An object is the list of
  its properties; a number is the value of the parsed double.
\<close>

datatype jsval =
    JUndefined
  | JNull
  | JBool bool
  | JNum rat
  | JStr jstring
  | JArr "jsval list"
  | JObj "(jstring \<times> jsval) list"

text \<open>Truthiness, as \<open>!v\<close>, \<open>&&\<close>, \<open>||\<close> and \<open>?:\<close> test it.\<close>

fun truthy :: "jsval \<Rightarrow> bool" where
  "truthy JUndefined = False"
| "truthy JNull = False"
| "truthy (JBool b) = b"
| "truthy (JNum n) = (n \<noteq> 0)"
| "truthy (JStr s) = (s \<noteq> [])"
| "truthy (JArr xs) = True"
| "truthy (JObj kvs) = True"

text \<open>
  \<open>v.name\<close> for one of the names the source reads (\<open>application\<close>, \<open>id\<close>, \<open>error\<close>,
  \<open>applications\<close>): the property of an object, and \<open>undefined\<close> on a string, number,
  boolean or array, which have no property of these names. On \<open>null\<close> and \<open>undefined\<close>
  the read throws in JavaScript: every caller below tests for them first, as the source
  does by \<open>&&\<close> and \<open>||\<close>, or turns them into the thrown error.
\<close>

fun member :: "jsval \<Rightarrow> string \<Rightarrow> jsval" where
  "member (JObj kvs) name = (case map_of kvs (js name) of None \<Rightarrow> JUndefined | Some v \<Rightarrow> v)"
| "member v name = JUndefined"

text \<open>\<open>Array.isArray(v)\<close>, and the elements of an array.\<close>

fun isArray :: "jsval \<Rightarrow> bool" where
  "isArray (JArr xs) = True"
| "isArray v = False"

fun elements :: "jsval \<Rightarrow> jsval list" where
  "elements (JArr xs) = xs"
| "elements v = []"

definition nullish :: "jsval \<Rightarrow> bool" where
  "nullish v = (v = JNull \<or> v = JUndefined)"

text \<open>
  A string built from a value that converts: the string itself, or its rendering, written
  out where it is a constant and kept as \<open>StringOf v\<close> for a number or an array, whose
  rendering is the host's. \<open>stringifies_empty\<close> tells when that rendering is the empty
  string.
\<close>

datatype strval = Text jstring | StringOf jsval

fun render :: "jsval \<Rightarrow> strval" where
  "render (JStr s) = Text s"
| "render JUndefined = Text (js ''undefined'')"
| "render JNull = Text (js ''null'')"
| "render (JBool b) = Text (js (if b then ''true'' else ''false''))"
| "render (JObj kvs) = Text (js ''[object Object]'')"
| "render v = StringOf v"

text \<open>
  The conversion to a string throws a \<open>TypeError\<close> on an object with a property of its
  own named \<open>toString\<close>: a value read from JSON is never a function, so the conversion
  finds neither a callable \<open>toString\<close> nor a \<open>valueOf\<close> that returns a primitive. It
  throws on an array that holds such an object, since the elements other than \<open>null\<close>
  and \<open>undefined\<close> are converted in turn.
\<close>

fun unprintable :: "jsval \<Rightarrow> bool" where
  "unprintable (JObj kvs) = (js ''toString'' \<in> set (map fst kvs))"
| "unprintable (JArr xs) = (\<exists>x \<in> set xs. unprintable x)"
| "unprintable v = False"

fun stringifies_empty :: "jsval \<Rightarrow> bool" where
  "stringifies_empty (JStr s) = (s = [])"
| "stringifies_empty (JArr []) = True"
| "stringifies_empty (JArr [x]) = (nullish x \<or> stringifies_empty x)"
| "stringifies_empty v = False"

fun nonempty :: "strval \<Rightarrow> bool" where
  "nonempty (Text s) = (s \<noteq> [])"
| "nonempty (StringOf v) = (\<not> stringifies_empty v)"

text \<open>
  What a \<open>catch\<close> receives: an \<open>Error\<close> the code constructs, or an error of the host
  (the \<open>TypeError\<close> of a failed \<open>fetch\<close>, of a property read on \<open>null\<close> or of a
  conversion to a string, the \<open>SyntaxError\<close> of \<open>response.json()\<close>) with the host's
  message.
\<close>

datatype thrown = Error strval | HostError jstring

fun message :: "thrown \<Rightarrow> strval" where
  "message (Error m) = m"
| "message (HostError t) = Text t"

section \<open>The network, the console and the host\<close>

record request =
  url :: string
  httpMethod :: string
  headers :: "(string \<times> jstring) list"
  body :: "jsval option"

text \<open>
  A response as the code reads it: \<open>contentType\<close> is \<open>headers.get('content-type')\<close>
  (\<open>None\<close> for \<open>null\<close>), \<open>bodyText\<close> what \<open>text()\<close> resolves to, \<open>bodyJson\<close> the outcome
  of \<open>json()\<close> (\<open>Inl\<close> the message of the rejection).
\<close>

record response =
  status :: nat
  statusText :: jstring
  contentType :: "jstring option"
  bodyText :: jstring
  bodyJson :: "jstring + jsval"

definition ok :: "response \<Rightarrow> bool" where
  "ok r = (200 \<le> status r \<and> status r \<le> 299)"

datatype fetch_result = Threw jstring | Responded response

datatype level = Log | Warn | Err

datatype logarg =
    ANum nat
  | AStr jstring
  | ABool bool
  | AContentType "jstring option"
  | AValue jsval
  | AThrown thrown
  | AMessage strval
  | AStack thrown

datatype effect =
    PreventDefault
  | Console level string "logarg list"
  | Fetch request
  | Alert string
  | OnSuccess jsval
  | RouterPush "strval list"

text \<open>
  What the components take from outside the files under study: the network, the clock,
  the helpers imported from other modules of the application (\<open>isValidObjectId\<close>,
  \<open>getAuthToken\<close>, given by its result), and the messages the host gives the
  \<open>TypeError\<close> of a property read on \<open>null\<close> and the \<open>TypeError\<close> of a conversion to
  a string. The library functions whose tables are the host's,
  \<open>toLowerCase\<close> and \<open>toLocaleDateString\<close>, are parameters of the functions that call
  them.
\<close>

record host =
  fetch :: "request \<Rightarrow> fetch_result"
  isValidObjectId :: "jstring \<Rightarrow> bool"
  getAuthToken :: "jstring option"
  nowISO :: jstring
  weekAgoISO :: jstring
  nullReadMessage :: jstring
  toPrimitiveMessage :: jstring

text \<open>
  \<open>String(v)\<close>, as \<open>new Error(v)\<close> and a template literal compute it: the rendering, or
  the \<open>TypeError\<close> of the conversion.
\<close>

definition String' :: "host \<Rightarrow> jsval \<Rightarrow> thrown + strval" where
  "String' h v = (if unprintable v then Inl (HostError (toPrimitiveMessage h)) else Inr (render v))"

text \<open>
  \<open>!contentType || !contentType.includes('application/json')\<close>, negated: the test both
  components apply to the content type.
\<close>

definition is_json_type :: "jstring option \<Rightarrow> bool" where
  "is_json_type ct =
     (case ct of None \<Rightarrow> False
      | Some t \<Rightarrow> t \<noteq> [] \<and> js_includes t (js ''application/json''))"

section \<open>The application form (ApplicationForm.tsx)\<close>

record jobPost =
  id' :: jstring
  title :: jstring
  company :: jstring
  location :: jstring
  description :: jstring
  postedDate :: jstring

record formData =
  fullName :: jstring
  email :: jstring
  phone :: jstring
  resume :: jstring
  coverLetter :: jstring

type_synonym errors = "(string \<times> strval) list"

record form_state =
  formData :: formData
  errors :: errors
  isSubmitting :: bool
  resumeFileName :: jstring

text \<open>\<open>validateForm\<close>: the new \<open>errors\<close> state and whether it has no key.\<close>

definition validateForm :: "form_state \<Rightarrow> form_state \<times> bool" where
  "validateForm s =
     (let fd = formData s;
          e1 = (if trim (fullName fd) = []
                then AList.update ''fullName'' (Text (js ''Full name is required'')) []
                else []);
          e2 = (if trim (email fd) = []
                then AList.update ''email'' (Text (js ''Email is required'')) e1
                else if \<not> test email_regex (email fd)
                then AList.update ''email'' (Text (js ''Email is invalid'')) e1
                else e1);
          e3 = (if trim (phone fd) = []
                then AList.update ''phone'' (Text (js ''Phone number is required'')) e2
                else e2);
          newErrors = (if resume fd = []
                then AList.update ''resume'' (Text (js ''Resume is required'')) e3
                else e3)
      in (s\<lparr>errors := newErrors\<rparr>, length (map fst newErrors) = 0))"

record props =
  job :: jobPost
  hasOnSuccess :: bool

text \<open>
  The body of both requests, \<open>JSON.stringify({jobId: job.id, ...formData})\<close>, as the
  object that is serialised.
\<close>

definition payload :: "jobPost \<Rightarrow> formData \<Rightarrow> jsval" where
  "payload j fd =
     JObj [(js ''jobId'', JStr (id' j)),
           (js ''fullName'', JStr (fullName fd)),
           (js ''email'', JStr (email fd)),
           (js ''phone'', JStr (phone fd)),
           (js ''resume'', JStr (resume fd)),
           (js ''coverLetter'', JStr (coverLetter fd))]"

definition post :: "string \<Rightarrow> jobPost \<Rightarrow> formData \<Rightarrow> request" where
  "post u j fd =
     \<lparr>url = u, httpMethod = ''POST'',
      headers = [(''Content-Type'', js ''application/json'')],
      body = Some (payload j fd)\<rparr>"

text \<open>
  Lines 114 to 147: the primary request and, when it throws, the request to the test
  endpoint. The result is the response with \<open>usedFallback\<close>, or what the second
  \<open>fetch\<close> threw.
\<close>

definition attempt :: "host \<Rightarrow> jobPost \<Rightarrow> formData \<Rightarrow> effect list \<times> (thrown + response \<times> bool)" where
  "attempt h j fd =
     (let primary = post ''/api/applications'' j fd;
          before = [Console Log ''Trying primary API endpoint...'' [], Fetch primary]
      in case fetch h primary of
           Responded r \<Rightarrow>
             (before @ [Console Log ''Primary API response status:'' [ANum (status r)]],
              Inr (r, False))
         | Threw primaryError \<Rightarrow>
             (let fallback = post ''/api/test-application'' j fd;
                  retry = before @
                    [Console Err ''Primary API endpoint failed:'' [AThrown (HostError primaryError)],
                     Console Log ''Trying fallback test API endpoint...'' [],
                     Fetch fallback]
              in case fetch h fallback of
                   Responded r \<Rightarrow>
                     (retry @ [Console Log ''Fallback API response status:'' [ANum (status r)]],
                      Inr (r, True))
                 | Threw e \<Rightarrow> (retry, Inl (HostError e))))"

text \<open>Lines 149 to 175: content type, then parse, then status.\<close>

definition checks :: "host \<Rightarrow> response \<Rightarrow> effect list \<times> (thrown + jsval)" where
  "checks h r =
     (if \<not> is_json_type (contentType r) then
        ([Console Err ''Non-JSON response received:'' [AContentType (contentType r)],
          Console Err ''Response text (first 500 chars):'' [AStr (take 500 (bodyText r))]],
         Inl (Error (Text (js ''Server returned non-JSON response ('' @ show_nat (status r)
                           @ js ''). Please check server logs.''))))
      else case bodyJson r of
        Inl parseError \<Rightarrow>
          ([Console Err ''Error parsing JSON response:'' [AThrown (HostError parseError)]],
           Inl (Error (Text (js ''Failed to parse server response. Please try again.''))))
      | Inr data \<Rightarrow>
          (let logged = [Console Log ''Response data:'' [AValue data]] in
           if \<not> ok r then
             (logged,
              if truthy data \<and> truthy (member data ''error'')
              then (case String' h (member data ''error'') of
                      Inl e \<Rightarrow> Inl e
                    | Inr errorMessage \<Rightarrow> Inl (Error errorMessage))
              else Inl (Error (Text (js ''Server returned error ('' @ show_nat (status r)
                                     @ js '')''))))
           else (logged, Inr data)))"

text \<open>Lines 177 to 181: the shape of the data.\<close>

definition application_id :: "jsval \<Rightarrow> jsval" where
  "application_id data = member (member data ''application'') ''id''"

definition validateData :: "jsval \<Rightarrow> effect list \<times> (thrown + jsval)" where
  "validateData data =
     (if \<not> truthy data \<or> \<not> truthy (member data ''application'')
         \<or> \<not> truthy (application_id data) then
        ([Console Err ''Invalid response data:'' [AValue data]],
         Inl (Error (Text (js ''Server returned invalid data. Please try again.''))))
      else ([], Inr data))"

text \<open>
  Lines 183 to 196: the notice of the test mode, then the callback or the navigation. The
  template literal of the navigation converts the identifier to a string, which may
  throw; the result holds what was thrown, if anything.
\<close>

definition succeed :: "host \<Rightarrow> props \<Rightarrow> bool \<Rightarrow> jsval \<Rightarrow> effect list \<times> thrown option" where
  "succeed h p usedFallback data =
     (let shown =
            [Console Log ''Application submitted successfully:'' [AValue (application_id data)]]
            @ (if usedFallback
               then [Alert ''Your application was submitted in test mode. In a production environment, this would be saved to a database.'']
               else [])
      in if hasOnSuccess p then (shown @ [OnSuccess (application_id data)], None)
         else case String' h (application_id data) of
                Inl e \<Rightarrow> (shown, Some e)
              | Inr applicationId \<Rightarrow>
                  (shown @
                     [RouterPush
                        [Text (js ''/jobs/'' @ id' (job p)
                               @ js ''/application-success?applicationId=''),
                         applicationId,
                         Text (if usedFallback then js ''&testMode=true'' else [])]],
                   None))"

text \<open>The \<open>catch\<close> of line 197 and the state it leaves.\<close>

definition submitFailed :: "form_state \<Rightarrow> thrown \<Rightarrow> form_state \<times> effect list" where
  "submitFailed s e =
     (s\<lparr>errors := AList.update ''submit''
            (if nonempty (message e) then message e
             else Text (js ''Failed to submit application. Please try again.''))
            (errors s)\<rparr>,
      [Console Err ''Error submitting application:'' [AThrown e]])"

text \<open>
  \<open>handleSubmit\<close>: the state once the handler has finished (\<open>isSubmitting\<close> is true only
  while a request is pending, and false again in \<open>finally\<close>) and its effects in order.
\<close>

definition handleSubmit :: "host \<Rightarrow> props \<Rightarrow> form_state \<Rightarrow> form_state \<times> effect list" where
  "handleSubmit h p s0 =
     (let (s1, valid) = validateForm s0 in
      if \<not> valid then (s1, [PreventDefault])
      else if id' (job p) = [] then
        (s1\<lparr>errors := AList.update ''submit''
               (Text (js ''Job ID is missing. Please try again or contact support.''))
               (errors s1)\<rparr>,
         [PreventDefault])
      else
        (let fd = formData s0;
             start = [PreventDefault,
               Console Log ''Submitting application with job ID:'' [AStr (id' (job p))],
               Console Log ''Is MongoDB ObjectId:'' [ABool (isValidObjectId h (id' (job p)))],
               Console Log ''Submitting application for job:'' [AStr (id' (job p))],
               Console Log ''Form data:''
                 [AValue (JObj [(js ''fullName'', JStr (fullName fd)),
                                (js ''email'', JStr (email fd)),
                                (js ''phone'', JStr (phone fd)),
                                (js ''resume'', JStr (js (if resume fd \<noteq> [] then ''File selected'' else ''No file''))),
                                (js ''coverLetter'', JStr (coverLetter fd))])]];
             (sent, outcome) = attempt h (job p) fd
         in case outcome of
              Inl e \<Rightarrow>
                (let (s2, logged) = submitFailed s1 e
                 in (s2\<lparr>isSubmitting := False\<rparr>, start @ sent @ logged))
            | Inr (r, usedFallback) \<Rightarrow>
                (let (checked, verdict) = checks h r in
                 case verdict of
                   Inl e \<Rightarrow>
                     (let (s2, logged) = submitFailed s1 e
                      in (s2\<lparr>isSubmitting := False\<rparr>, start @ sent @ checked @ logged))
                 | Inr parsed \<Rightarrow>
                     (let (inspected, shape) = validateData parsed in
                      case shape of
                        Inl e \<Rightarrow>
                          (let (s2, logged) = submitFailed s1 e
                           in (s2\<lparr>isSubmitting := False\<rparr>,
                               start @ sent @ checked @ inspected @ logged))
                      | Inr data \<Rightarrow>
                          (let (signalled, raised) = succeed h p usedFallback data in
                           case raised of
                             None \<Rightarrow>
                               (s1\<lparr>isSubmitting := False\<rparr>,
                                start @ sent @ checked @ inspected @ signalled)
                           | Some e \<Rightarrow>
                               (let (s2, logged) = submitFailed s1 e
                                in (s2\<lparr>isSubmitting := False\<rparr>,
                                    start @ sent @ checked @ inspected @ signalled @ logged)))))))"

text \<open>The requests among the effects, in the order they were sent.\<close>

definition requests :: "effect list \<Rightarrow> request list" where
  "requests es = concat (map (\<lambda>e. case e of Fetch q \<Rightarrow> [q] | _ \<Rightarrow> []) es)"

section \<open>The applications page (page.tsx)\<close>

record job_ref =
  title :: jstring
  company :: jstring
  location :: jstring
  type' :: "jstring option"
  logo :: "jstring option"

record application =
  id' :: jstring
  jobId :: jstring
  fullName :: jstring
  email :: jstring
  phone :: jstring
  resume :: jstring
  coverLetter :: "jstring option"
  appliedDate :: jstring
  status :: jstring
  job :: "job_ref option"

datatype ui_status = Applied | Interview | Rejected | Offer

text \<open>\<open>activeFilter\<close>: \<open>'all'\<close>, or one of the four statuses of the table.\<close>

datatype active_filter = All | Only ui_status

text \<open>
  \<open>mapStatus\<close>. The argument is whatever string the record holds: the \<open>default\<close> branch
  is there for values outside the declared union.
\<close>

definition mapStatus :: "jstring \<Rightarrow> ui_status" where
  "mapStatus s =
     (if s = js ''pending'' \<or> s = js ''reviewed'' then Applied
      else if s = js ''interview'' then Interview
      else if s = js ''rejected'' then Rejected
      else if s = js ''accepted'' then Offer
      else Applied)"

text \<open>\<open>x || d\<close> for an optional string: \<open>d\<close> when \<open>x\<close> is \<open>undefined\<close> or empty.\<close>

fun orElse :: "jstring option \<Rightarrow> jstring \<Rightarrow> jstring" where
  "orElse None d = d"
| "orElse (Some x) d = (if x = [] then d else x)"

text \<open>
  The predicate of \<open>applications.filter\<close> (lines 177 to 197) and the filtered list.
  \<open>toLowerCase\<close> is the host's.
\<close>

definition keeps :: "(jstring \<Rightarrow> jstring) \<Rightarrow> active_filter \<Rightarrow> jstring \<Rightarrow> application \<Rightarrow> bool" where
  "keeps toLowerCase activeFilter searchQuery app =
     (if activeFilter \<noteq> All \<and> Only (mapStatus (application.status app)) \<noteq> activeFilter then False
      else if searchQuery \<noteq> [] then
        (let query = toLowerCase searchQuery in
           js_includes (toLowerCase (orElse (map_option job_ref.title (job app)) [])) query
         \<or> js_includes (toLowerCase (orElse (map_option job_ref.company (job app)) [])) query
         \<or> js_includes (toLowerCase (orElse (map_option job_ref.location (job app)) [])) query)
      else True)"

definition filteredApplications ::
  "(jstring \<Rightarrow> jstring) \<Rightarrow> active_filter \<Rightarrow> jstring \<Rightarrow> application list \<Rightarrow> application list" where
  "filteredApplications toLowerCase activeFilter searchQuery applications =
     filter (keeps toLowerCase activeFilter searchQuery) applications"

record table_row =
  id' :: jstring
  title :: jstring
  company :: jstring
  location :: jstring
  status :: ui_status
  date :: jstring

text \<open>
  \<open>formatApplicationsForTable\<close>; \<open>toLocaleDateString\<close> stands for
  \<open>new Date(s).toLocaleDateString()\<close>, the host's.
\<close>

definition formatApplicationsForTable ::
  "(jstring \<Rightarrow> jstring) \<Rightarrow> application list \<Rightarrow> table_row list" where
  "formatApplicationsForTable toLocaleDateString applications =
     map (\<lambda>app.
       \<lparr>table_row.id' = application.id' app,
        title = orElse (map_option job_ref.title (job app)) (js ''Unknown Job''),
        company = orElse (map_option job_ref.company (job app)) (js ''Unknown Company''),
        location = orElse (map_option job_ref.location (job app)) (js ''Unknown Location''),
        status = mapStatus (application.status app),
        date = toLocaleDateString (appliedDate app)\<rparr>) applications"

text \<open>
  The search predicate in the words of the specification: the query is empty, or it is a
  substring, letter case apart, of the title, the company or the location (each the empty
  string when the record has no job).
\<close>

definition ci_substring :: "(jstring \<Rightarrow> jstring) \<Rightarrow> jstring \<Rightarrow> jstring \<Rightarrow> bool" where
  "ci_substring toLowerCase q s = (\<exists>pre post. toLowerCase s = pre @ toLowerCase q @ post)"

definition status_predicate :: "active_filter \<Rightarrow> application \<Rightarrow> bool" where
  "status_predicate f app = (f = All \<or> f = Only (mapStatus (application.status app)))"

definition search_predicate :: "(jstring \<Rightarrow> jstring) \<Rightarrow> jstring \<Rightarrow> application \<Rightarrow> bool" where
  "search_predicate toLowerCase q app =
     (q = []
      \<or> ci_substring toLowerCase q (case job app of None \<Rightarrow> [] | Some j \<Rightarrow> job_ref.title j)
      \<or> ci_substring toLowerCase q (case job app of None \<Rightarrow> [] | Some j \<Rightarrow> job_ref.company j)
      \<or> ci_substring toLowerCase q (case job app of None \<Rightarrow> [] | Some j \<Rightarrow> job_ref.location j))"

text \<open>\<open>toLowerCase\<close> on strings of ASCII, to evaluate the filter on examples.\<close>

definition ascii_lower :: "jstring \<Rightarrow> jstring" where
  "ascii_lower s = map (\<lambda>c. if 0x41 \<le> c \<and> c \<le> 0x5A then c + 0x20 else c) s"

subsection \<open>Fetching the applications\<close>

text \<open>
  The state of the page. The list holds whatever array the server sent: TypeScript gives
  its elements the type \<open>Application\<close> without a check, so the list is one of values, and
  \<open>to_value\<close> is the object a record of the interface is at run time.
\<close>

record page_state =
  applications :: "jsval list"
  isLoading :: bool
  error :: "jstring option"
  activeFilter :: active_filter
  searchQuery :: jstring

text \<open>The state the page starts in (the arguments of \<open>useState\<close>).\<close>

definition initial_page :: page_state where
  "initial_page =
     \<lparr>applications = [], isLoading = True, error = None, activeFilter = All, searchQuery = []\<rparr>"

definition optional :: "string \<Rightarrow> jstring option \<Rightarrow> (jstring \<times> jsval) list" where
  "optional name v = (case v of None \<Rightarrow> [] | Some x \<Rightarrow> [(js name, JStr x)])"

definition job_to_value :: "job_ref \<Rightarrow> jsval" where
  "job_to_value j =
     JObj ([(js ''title'', JStr (job_ref.title j)),
            (js ''company'', JStr (job_ref.company j)),
            (js ''location'', JStr (job_ref.location j))]
           @ optional ''type'' (type' j) @ optional ''logo'' (logo j))"

definition to_value :: "application \<Rightarrow> jsval" where
  "to_value a =
     JObj ([(js ''id'', JStr (application.id' a)),
            (js ''jobId'', JStr (jobId a)),
            (js ''fullName'', JStr (application.fullName a)),
            (js ''email'', JStr (application.email a)),
            (js ''phone'', JStr (application.phone a)),
            (js ''resume'', JStr (application.resume a))]
           @ optional ''coverLetter'' (application.coverLetter a)
           @ [(js ''appliedDate'', JStr (appliedDate a)),
              (js ''status'', JStr (application.status a)),
              (js ''job'', case job a of None \<Rightarrow> JNull | Some j \<Rightarrow> job_to_value j)])"

text \<open>
  \<open>mockApplications\<close> (lines 128 to 161); the two dates are the clock's,
  \<open>new Date().toISOString()\<close> and the same seven days earlier.
\<close>

definition mockApplications :: "host \<Rightarrow> application list" where
  "mockApplications h =
     [\<lparr>application.id' = js ''app1'', jobId = js ''1'', fullName = js ''John Doe'',
       email = js ''john@example.com'', phone = js ''1234567890'', resume = js ''resume.pdf'',
       coverLetter = None, appliedDate = nowISO h, status = js ''pending'',
       job = Some \<lparr>job_ref.title = js ''Frontend Developer'', company = js ''Tech Corp'',
                   location = js ''Remote'', type' = Some (js ''Full-time''), logo = None\<rparr>\<rparr>,
      \<lparr>application.id' = js ''app2'', jobId = js ''2'', fullName = js ''John Doe'',
       email = js ''john@example.com'', phone = js ''1234567890'', resume = js ''resume.pdf'',
       coverLetter = None, appliedDate = weekAgoISO h, status = js ''interview'',
       job = Some \<lparr>job_ref.title = js ''Backend Developer'', company = js ''Software Inc'',
                   location = js ''New York'', type' = Some (js ''Full-time''), logo = None\<rparr>\<rparr>]"

text \<open>
  Lines 88 to 118, the inner \<open>try\<close>: the request, the status, the content type, the
  parse, and the list to store; \<open>Inl\<close> is what the inner \<open>catch\<close> receives.
\<close>

definition get_applications :: "jstring \<Rightarrow> request" where
  "get_applications token =
     \<lparr>url = ''/api/user/applications'', httpMethod = ''GET'',
      headers = [(''Authorization'', js ''Bearer '' @ token)], body = None\<rparr>"

text \<open>Lines 96 to 110: status, then content type, then parse.\<close>

definition validate :: "response \<Rightarrow> effect list \<times> (thrown + jsval)" where
  "validate r =
     (let seen = [Console Log ''API response status:'' [ANum (response.status r)]] in
      if \<not> ok r then
        (seen @ [Console Err ''API error:'' [ANum (response.status r), AStr (statusText r)]],
         Inl (Error (Text (js ''Failed to fetch applications: '' @ show_nat (response.status r)))))
      else if \<not> is_json_type (contentType r) then
        (seen @ [Console Err ''Non-JSON response received:'' [AContentType (contentType r)]],
         Inl (Error (Text (js ''Server returned non-JSON response''))))
      else case bodyJson r of
        Inl parseError \<Rightarrow> (seen, Inl (HostError parseError))
      | Inr data \<Rightarrow> (seen @ [Console Log ''Applications data received:'' [AValue data]], Inr data))"

definition request_applications :: "host \<Rightarrow> jstring \<Rightarrow> effect list \<times> (thrown + jsval list)" where
  "request_applications h token =
     (let before = [Console Log ''Making authenticated API request...'' [],
                    Fetch (get_applications token)]
      in case fetch h (get_applications token) of
           Threw e \<Rightarrow> (before, Inl (HostError e))
         | Responded r \<Rightarrow>
             (let (checked, verdict) = validate r in
              case verdict of
                Inl e \<Rightarrow> (before @ checked, Inl e)
              | Inr data \<Rightarrow>
                  if nullish data then (before @ checked, Inl (HostError (nullReadMessage h)))
                  else if truthy (member data ''applications'')
                          \<and> isArray (member data ''applications'')
                  then (before @ checked, Inr (elements (member data ''applications'')))
                  else
                    (before @ checked @
                       [Console Warn ''No applications array in response or empty applications array'' []],
                     Inr [])))"

text \<open>
  \<open>fetchApplications\<close>: the state once it has finished (\<open>isLoading\<close> is true while the
  request is pending and false again in \<open>finally\<close>) and its effects in order.
\<close>

definition fetchApplications :: "host \<Rightarrow> page_state \<Rightarrow> page_state \<times> effect list" where
  "fetchApplications h s =
     (let start = [Console Log ''Fetching applications from API...'' []] in
      case getAuthToken h of
        None \<Rightarrow>
          (s\<lparr>error := Some (js ''Failed to load your applications. Please try again later.''),
             isLoading := False\<rparr>,
           start @ [Console Err ''No authentication token found'' [],
                    Console Err ''Error in application fetching process:''
                      [AThrown (Error (Text (js ''Authentication required'')))]])
      | Some token \<Rightarrow>
          if token = [] then
            (s\<lparr>error := Some (js ''Failed to load your applications. Please try again later.''),
               isLoading := False\<rparr>,
             start @ [Console Err ''No authentication token found'' [],
                      Console Err ''Error in application fetching process:''
                        [AThrown (Error (Text (js ''Authentication required'')))]])
          else
            (let (done, outcome) = request_applications h token in
             case outcome of
               Inr xs \<Rightarrow> (s\<lparr>applications := xs, isLoading := False\<rparr>, start @ done)
             | Inl fetchError \<Rightarrow>
                 (s\<lparr>applications := map to_value (mockApplications h), isLoading := False\<rparr>,
                  start @ done @
                    [Console Err ''API fetch error:'' [AThrown fetchError],
                     Console Err ''Error details:'' [AMessage (message fetchError)],
                     Console Err ''Error stack:'' [AStack fetchError],
                     Console Log ''Using mock application data as fallback'' []])))"

text \<open>The errors among the console entries.\<close>

definition logged_errors :: "effect list \<Rightarrow> thrown list" where
  "logged_errors es =
     concat (map (\<lambda>e. case e of Console Err label args \<Rightarrow>
                          concat (map (\<lambda>a. case a of AThrown t \<Rightarrow> [t] | _ \<Rightarrow> []) args)
                        | _ \<Rightarrow> []) es)"

section \<open>Notions of the specification\<close>

text \<open>
  A required field is omitted when its check for presence fails, and the form is
  well-formed when every check of the validation contract passes.
\<close>

definition omitted :: "formData \<Rightarrow> string set" where
  "omitted fd =
     (if trim (formData.fullName fd) = [] then {''fullName''} else {})
     \<union> (if trim (formData.email fd) = [] then {''email''} else {})
     \<union> (if trim (formData.phone fd) = [] then {''phone''} else {})
     \<union> (if formData.resume fd = [] then {''resume''} else {})"

definition well_formed :: "formData \<Rightarrow> bool" where
  "well_formed fd =
     (trim (formData.fullName fd) \<noteq> []
      \<and> trim (formData.email fd) \<noteq> [] \<and> email_pattern (formData.email fd)
      \<and> trim (formData.phone fd) \<noteq> []
      \<and> formData.resume fd \<noteq> [])"


text \<open>
  The failures of the viewer's fetch: the network fails, the status is not a success, the
  content type is not JSON, or the body does not parse.
\<close>

definition failed :: "fetch_result \<Rightarrow> bool" where
  "failed x =
     (case x of
        Threw m \<Rightarrow> True
      | Responded r \<Rightarrow>
          \<not> ok r \<or> \<not> is_json_type (contentType r)
          \<or> (case bodyJson r of Inl m \<Rightarrow> True | Inr data \<Rightarrow> False))"

subsection \<open>Inputs of the scenarios\<close>

definition form_of :: "formData \<Rightarrow> form_state" where
  "form_of fd = \<lparr>formData = fd, errors = [], isSubmitting = False, resumeFileName = formData.resume fd\<rparr>"

definition no_name :: formData where
  "no_name =
     \<lparr>formData.fullName = js '''', formData.email = js ''a@b.com'', formData.phone = js ''555'',
      formData.resume = js ''cv.pdf'', formData.coverLetter = js ''''\<rparr>"

definition complete :: formData where
  "complete =
     \<lparr>formData.fullName = js ''Ada Lovelace'', formData.email = js ''a@b.com'',
      formData.phone = js ''555'', formData.resume = js ''cv.pdf'', formData.coverLetter = js ''''\<rparr>"



definition nameless_bad_email :: formData where
  "nameless_bad_email =
     \<lparr>formData.fullName = js '''', formData.email = js ''a@b'',
      formData.phone = js ''555'', formData.resume = js ''cv.pdf'', formData.coverLetter = js ''''\<rparr>"

definition applicant :: props where
  "applicant =
     \<lparr>props.job =
        \<lparr>jobPost.id' = js ''64f0c0ffee0123456789abcd'', jobPost.title = js ''Frontend Developer'',
         jobPost.company = js ''Tech Corp'', jobPost.location = js ''Remote'',
         description = js ''Build the dashboard'', postedDate = js ''2024-05-01''\<rparr>,
      hasOnSuccess = True\<rparr>"


definition host_of :: "(request \<Rightarrow> fetch_result) \<Rightarrow> host" where
  "host_of f =
     \<lparr>fetch = f, isValidObjectId = (\<lambda>i. length i = 24), getAuthToken = Some (js ''token''),
      nowISO = js ''2024-05-08T09:00:00.000Z'', weekAgoISO = js ''2024-05-01T09:00:00.000Z'',
      nullReadMessage = js ''Cannot read properties of null'',
      toPrimitiveMessage = js ''Cannot convert object to primitive value''\<rparr>"

definition json_response :: "nat \<Rightarrow> jstring \<Rightarrow> jsval \<Rightarrow> response" where
  "json_response code raw v =
     \<lparr>response.status = code, statusText = [], contentType = Some (js ''application/json''),
      bodyText = raw, bodyJson = Inr v\<rparr>"

definition created_x1 :: response where
  \<open>created_x1 =
     json_response 201 (js ''{"application":{"id":"x1"}}'')
       (JObj [(js ''application'', JObj [(js ''id'', JStr (js ''x1''))])])\<close>

definition error_500 :: response where
  "error_500 = json_response 500 (js ''{}'') (JObj [])"


definition null_200 :: response where
  "null_200 = json_response 200 (js ''null'') JNull"

definition html_page :: "nat \<Rightarrow> response" where
  "html_page code =
     \<lparr>response.status = code, statusText = [], contentType = Some (js ''text/html''),
      bodyText = js ''<html></html>'', bodyJson = Inl (js ''Unexpected token <'')\<rparr>"



text \<open>A response that carries, as the user's own, the records of the mock applications.\<close>

definition genuine :: "host \<Rightarrow> response" where
  "genuine h =
     json_response 200 []
       (JObj [(js ''applications'', JArr (map to_value (mockApplications h)))])"


definition answers :: "response \<Rightarrow> request \<Rightarrow> fetch_result" where
  "answers r q = Responded r"

definition primary_down :: "response \<Rightarrow> request \<Rightarrow> fetch_result" where
  "primary_down r q =
     (if url q = ''/api/applications'' then Threw (js ''Failed to fetch'') else Responded r)"

definition offline :: "request \<Rightarrow> fetch_result" where
  "offline q = Threw (js ''Failed to fetch'')"

definition ghost :: application where
  "ghost =
     \<lparr>application.id' = js ''a7'', jobId = js ''7'', application.fullName = js ''John Doe'',
      application.email = js ''john@example.com'', application.phone = js ''1234567890'',
      application.resume = js ''resume.pdf'', application.coverLetter = None,
      appliedDate = js ''2024-05-01T09:00:00.000Z'', application.status = js ''pending'',
      application.job = None\<rparr>"

subsection \<open>Observations on the effects\<close>

text \<open>The effects that signal completion: the callback or the navigation.\<close>

definition completions :: "effect list \<Rightarrow> effect list" where
  "completions es =
     filter (\<lambda>e. case e of OnSuccess v \<Rightarrow> True | RouterPush u \<Rightarrow> True | _ \<Rightarrow> False) es"

definition alerts :: "effect list \<Rightarrow> string list" where
  "alerts es = concat (map (\<lambda>e. case e of Alert t \<Rightarrow> [t] | _ \<Rightarrow> []) es)"

text \<open>Whether the console holds an entry of this level and text.\<close>

definition console_has :: "level \<Rightarrow> string \<Rightarrow> effect list \<Rightarrow> bool" where
  "console_has l t es =
     list_ex (\<lambda>e. case e of Console l' t' args \<Rightarrow> l' = l \<and> t' = t | _ \<Rightarrow> False) es"

definition test_mode_notice :: string where
  "test_mode_notice = ''Your application was submitted in test mode. In a production environment, this would be saved to a database.''"

section \<open>What the matcher decides\<close>

lemma nil_in_conc: "[] \<in> conc A B \<longleftrightarrow> [] \<in> A \<and> [] \<in> B"
  by (auto simp: conc_def)

lemma nullable_iff: "nullable r \<longleftrightarrow> [] \<in> lang r"
  by (induction r) (auto simp: nil_in_conc intro: star.star_nil)

lemma cons_in_conc:
  "c # w \<in> conc A B \<longleftrightarrow> (\<exists>u v. w = u @ v \<and> c # u \<in> A \<and> v \<in> B) \<or> ([] \<in> A \<and> c # w \<in> B)"
  by (auto simp: conc_def Cons_eq_append_conv)

lemma star_cons_dest:
  "x \<in> star A \<Longrightarrow> x = c # w \<Longrightarrow> \<exists>u v. w = u @ v \<and> c # u \<in> A \<and> v \<in> star A"
proof (induction arbitrary: w rule: star.induct)
  case star_nil
  then show ?case by simp
next
  case (star_app u v)
  show ?case
  proof (cases u)
    case Nil
    with star_app show ?thesis by simp
  next
    case (Cons a u')
    with star_app.prems have "a = c" "w = u' @ v" by simp_all
    with Cons star_app.hyps show ?thesis by blast
  qed
qed

lemma cons_in_star:
  "c # w \<in> star A \<longleftrightarrow> (\<exists>u v. w = u @ v \<and> c # u \<in> A \<and> v \<in> star A)"
proof
  assume "c # w \<in> star A"
  then show "\<exists>u v. w = u @ v \<and> c # u \<in> A \<and> v \<in> star A"
    using star_cons_dest by blast
next
  assume "\<exists>u v. w = u @ v \<and> c # u \<in> A \<and> v \<in> star A"
  then obtain u v where "w = u @ v" "c # u \<in> A" "v \<in> star A" by blast
  then show "c # w \<in> star A"
    using star.star_app [of "c # u" A v] by simp
qed

lemma lang_deriv: "w \<in> lang (deriv c r) \<longleftrightarrow> c # w \<in> lang r"
proof (induction r arbitrary: w)
  case (Seq r s)
  then show ?case
    by (auto simp: cons_in_conc nullable_iff) (auto simp: conc_def)
next
  case (Star r)
  then show ?case
    by (auto simp: cons_in_star) (auto simp: conc_def)
qed auto

lemma matches_iff: "matches r w \<longleftrightarrow> w \<in> lang r"
  by (induction w arbitrary: r) (simp_all add: nullable_iff lang_deriv)

lemma star_nonspace:
  "star {[c] | c. \<not> isWhiteSpace c} = {s. \<forall>c \<in> set s. \<not> isWhiteSpace c}" (is "star ?A = ?B")
proof
  show "star ?A \<subseteq> ?B"
  proof
    fix x assume "x \<in> star ?A"
    then show "x \<in> ?B" by (induction rule: star.induct) auto
  qed
  show "?B \<subseteq> star ?A"
  proof
    fix x assume "x \<in> ?B"
    then show "x \<in> star ?A"
    proof (induction x)
      case Nil
      show ?case by (rule star.star_nil)
    next
      case (Cons c x)
      then have "[c] \<in> ?A" "x \<in> star ?A" by auto
      then show ?case using star.star_app [of "[c]" ?A x] by simp
    qed
  qed
qed

lemma lang_nonspaces: "lang (Plus1 (Sym NonSpace)) = {s. nonspaces s}"
proof -
  have "conc {[c] | c. \<not> isWhiteSpace c} {s. \<forall>c \<in> set s. \<not> isWhiteSpace c} = {s. nonspaces s}"
    unfolding conc_def nonspaces_def
  proof (intro set_eqI iffI)
    fix x assume "x \<in> {s. s \<noteq> [] \<and> (\<forall>c\<in>set s. \<not> isWhiteSpace c)}"
    then obtain c w where "x = [c] @ w" "\<not> isWhiteSpace c" "\<forall>c\<in>set w. \<not> isWhiteSpace c"
      by (cases x) auto
    then show "x \<in> {u @ v |u v. u \<in> {[c] |c. \<not> isWhiteSpace c} \<and> v \<in> {s. \<forall>c\<in>set s. \<not> isWhiteSpace c}}"
      by blast
  qed auto
  then show ?thesis by (simp add: Plus1_def star_nonspace)
qed

lemma conc_iff: "w \<in> conc A B \<longleftrightarrow> (\<exists>u v. w = u @ v \<and> u \<in> A \<and> v \<in> B)"
  by (auto simp: conc_def)

lemma lang_lit_then: "w \<in> lang (Seq (Sym (Lit x)) r) \<longleftrightarrow> (\<exists>v. w = x # v \<and> v \<in> lang r)"
  by (auto simp: conc_def)

lemma lang_nonspaces_then:
  "w \<in> lang (Seq (Plus1 (Sym NonSpace)) r) \<longleftrightarrow> (\<exists>a v. w = a @ v \<and> nonspaces a \<and> v \<in> lang r)"
  unfolding lang.simps(5) lang_nonspaces conc_iff by simp

lemma lang_email_regex:
  "w \<in> lang email_regex \<longleftrightarrow>
     (\<exists>a b c. w = a @ [0x40] @ b @ [0x2E] @ c \<and> nonspaces a \<and> nonspaces b \<and> nonspaces c)"
  (is "?L \<longleftrightarrow> ?R")
proof
  assume ?L
  then obtain a v1 where 1: "w = a @ v1" "nonspaces a"
      and "v1 \<in> lang (Seq (Sym (Lit 0x40)) (Seq (Plus1 (Sym NonSpace)) (Seq (Sym (Lit 0x2E)) (Plus1 (Sym NonSpace)))))"
    unfolding email_regex_def lang_nonspaces_then by blast
  then obtain v2 where 2: "v1 = 0x40 # v2"
      and "v2 \<in> lang (Seq (Plus1 (Sym NonSpace)) (Seq (Sym (Lit 0x2E)) (Plus1 (Sym NonSpace))))"
    unfolding lang_lit_then by blast
  then obtain b v3 where 3: "v2 = b @ v3" "nonspaces b"
      and "v3 \<in> lang (Seq (Sym (Lit 0x2E)) (Plus1 (Sym NonSpace)))"
    unfolding lang_nonspaces_then by blast
  then obtain c where 4: "v3 = 0x2E # c" "nonspaces c"
    unfolding lang_lit_then lang_nonspaces by blast
  from 1 2 3 4 have "w = a @ [0x40] @ b @ [0x2E] @ c" by simp
  with 1 3 4 show ?R by blast
next
  assume ?R
  then obtain a b c where w: "w = a @ [0x40] @ b @ [0x2E] @ c"
      and n: "nonspaces a" "nonspaces b" "nonspaces c" by blast
  from n(3) have "0x2E # c \<in> lang (Seq (Sym (Lit 0x2E)) (Plus1 (Sym NonSpace)))"
    unfolding lang_lit_then lang_nonspaces by simp
  with n(2) have "b @ 0x2E # c \<in> lang (Seq (Plus1 (Sym NonSpace)) (Seq (Sym (Lit 0x2E)) (Plus1 (Sym NonSpace))))"
    unfolding lang_nonspaces_then by blast
  then have "0x40 # b @ 0x2E # c \<in> lang (Seq (Sym (Lit 0x40)) (Seq (Plus1 (Sym NonSpace)) (Seq (Sym (Lit 0x2E)) (Plus1 (Sym NonSpace)))))"
    unfolding lang_lit_then by simp
  with n(1) have "a @ 0x40 # b @ 0x2E # c \<in> lang email_regex"
    unfolding email_regex_def lang_nonspaces_then by blast
  then show ?L by (simp add: w)
qed

lemma test_iff: "test r s \<longleftrightarrow> (\<exists>pre m post. s = pre @ m @ post \<and> m \<in> lang r)"
proof
  assume "test r s"
  then obtain t m where "suffix t s" "prefix m t" "m \<in> lang r"
    by (auto simp: test_def list_ex_iff matches_iff)
  then obtain pre post where "s = pre @ t" "t = m @ post"
    by (auto simp: suffix_def prefix_def)
  with \<open>m \<in> lang r\<close> show "\<exists>pre m post. s = pre @ m @ post \<and> m \<in> lang r" by blast
next
  assume "\<exists>pre m post. s = pre @ m @ post \<and> m \<in> lang r"
  then obtain pre m post where s: "s = pre @ m @ post" and m: "m \<in> lang r" by blast
  have "m @ post \<in> set (suffixes s)" "m \<in> set (prefixes (m @ post))"
    by (simp_all add: s suffix_def)
  with m show "test r s"
    unfolding test_def list_ex_iff matches_iff by blast
qed

lemma email_shape_iff: "email_shape m \<longleftrightarrow> m \<in> lang email_regex"
  by (simp add: email_shape_def lang_email_regex)


lemma email_test_iff: "test email_regex s \<longleftrightarrow> email_pattern s"
  by (simp add: test_iff email_pattern_def email_shape_iff)

section \<open>Facts about the form handler\<close>

lemma keys_update: "set (map fst (AList.update k v al)) = insert k (set (map fst al))"
  using dom_update [of k v al] by simp

lemma requests_append: "requests (a @ b) = requests a @ requests b"
  by (simp add: requests_def)

lemma requests_Cons:
  "requests (e # es) = (case e of Fetch q \<Rightarrow> [q] | _ \<Rightarrow> []) @ requests es"
  by (simp add: requests_def)

lemma requests_Nil: "requests [] = []"
  by (simp add: requests_def)

lemma requests_attempt:
  "requests (fst (attempt h j fd)) =
     (case fetch h (post ''/api/applications'' j fd) of
        Responded r \<Rightarrow> [post ''/api/applications'' j fd]
      | Threw e \<Rightarrow> [post ''/api/applications'' j fd, post ''/api/test-application'' j fd])"
  by (simp add: attempt_def Let_def requests_Cons requests_Nil requests_append
           split: fetch_result.splits)

lemma requests_checks: "requests (fst (checks h r)) = []"
  by (simp add: checks_def Let_def requests_Cons requests_Nil requests_append split: sum.splits)

lemma requests_validateData: "requests (fst (validateData d)) = []"
  by (simp add: validateData_def requests_Cons requests_Nil)

lemma requests_succeed: "requests (fst (succeed h p u d)) = []"
  by (simp add: succeed_def Let_def requests_Cons requests_Nil requests_append split: sum.splits)

lemma requests_submitFailed: "requests (snd (submitFailed s e)) = []"
  by (simp add: submitFailed_def requests_Cons requests_Nil)

lemma requests_handleSubmit:
  "requests (snd (handleSubmit h p s)) =
     (if snd (validateForm s) \<and> jobPost.id' (props.job p) \<noteq> []
      then requests (fst (attempt h (props.job p) (formData s))) else [])"
  by (simp add: handleSubmit_def Let_def split_beta requests_append requests_Cons requests_Nil
        requests_succeed requests_checks requests_validateData requests_submitFailed
        split: sum.splits option.splits)

lemma keys_validateForm:
  "set (map fst (errors (fst (validateForm s)))) =
     omitted (formData s)
     \<union> (if trim (formData.email (formData s)) \<noteq> [] \<and> \<not> email_pattern (formData.email (formData s))
        then {''email''} else {})"
  by (auto simp: validateForm_def Let_def keys_update omitted_def email_test_iff)

lemma valid_iff: "snd (validateForm s) \<longleftrightarrow> errors (fst (validateForm s)) = []"
  by (simp add: validateForm_def Let_def)

lemma state_invalid:
  "\<not> snd (validateForm s) \<Longrightarrow> fst (handleSubmit h p s) = fst (validateForm s)"
  by (simp add: handleSubmit_def split_beta)

lemma validateForm_well_formed:
  "well_formed (formData s) \<Longrightarrow> validateForm s = (s\<lparr>errors := []\<rparr>, True)"
  by (simp add: well_formed_def validateForm_def Let_def email_test_iff)

lemma take1_attempt:
  "take (Suc 0) (requests (fst (attempt h j fd))) = [post ''/api/applications'' j fd]"
  by (simp add: requests_attempt split: fetch_result.splits)

lemma attempt_fallback:
  "fetch h (post ''/api/applications'' j fd) = Threw e \<Longrightarrow>
   snd (attempt h j fd) =
     (case fetch h (post ''/api/test-application'' j fd) of
        Responded r \<Rightarrow> Inr (r, True) | Threw e' \<Rightarrow> Inl (HostError e'))"
  by (simp add: attempt_def Let_def split: fetch_result.splits)

lemma completions_append: "completions (a @ b) = completions a @ completions b"
  by (simp add: completions_def)

lemma completions_Cons:
  "completions (e # es) =
     (case e of OnSuccess v \<Rightarrow> [e] | RouterPush u \<Rightarrow> [e] | _ \<Rightarrow> []) @ completions es"
  by (simp add: completions_def split: effect.splits)

lemma alerts_Cons:
  "alerts (e # es) = (case e of Alert t \<Rightarrow> [t] | _ \<Rightarrow> []) @ alerts es"
  by (simp add: alerts_def)

lemma completions_attempt: "completions (fst (attempt h j fd)) = []"
  by (simp add: attempt_def Let_def completions_def split: fetch_result.splits)

lemma completions_checks: "completions (fst (checks h r)) = []"
  by (simp add: checks_def Let_def completions_def split: sum.splits)

lemma completions_validateData: "completions (fst (validateData d)) = []"
  by (simp add: validateData_def completions_def)

lemma completions_submitFailed: "completions (snd (submitFailed s e)) = []"
  by (simp add: submitFailed_def completions_def)

lemma completions_succeed:
  "completions (fst (succeed h p u d)) =
     (if hasOnSuccess p then [OnSuccess (application_id d)]
      else if unprintable (application_id d) then []
      else [RouterPush
             [Text (js ''/jobs/'' @ jobPost.id' (props.job p) @ js ''/application-success?applicationId=''),
              render (application_id d),
              Text (if u then js ''&testMode=true'' else [])]])"
  by (simp add: succeed_def Let_def String'_def completions_def)

lemma snd_succeed:
  "snd (succeed h p u d) =
     (if hasOnSuccess p \<or> \<not> unprintable (application_id d) then None
      else Some (HostError (toPrimitiveMessage h)))"
  by (simp add: succeed_def Let_def String'_def)

lemma alerts_append: "alerts (a @ b) = alerts a @ alerts b"
  by (simp add: alerts_def)

lemma alerts_attempt: "alerts (fst (attempt h j fd)) = []"
  by (simp add: attempt_def Let_def alerts_def split: fetch_result.splits)

lemma alerts_checks: "alerts (fst (checks h r)) = []"
  by (simp add: checks_def Let_def alerts_def split: sum.splits)

lemma alerts_validateData: "alerts (fst (validateData d)) = []"
  by (simp add: validateData_def alerts_def)

lemma alerts_submitFailed: "alerts (snd (submitFailed s e)) = []"
  by (simp add: submitFailed_def alerts_def)

lemma alerts_succeed: "alerts (fst (succeed h p u d)) = (if u then [test_mode_notice] else [])"
  by (simp add: succeed_def Let_def String'_def alerts_def test_mode_notice_def)

text \<open>The handler once validation and the guard on the job are passed.\<close>

lemma handleSubmit_sent:
  assumes "snd (validateForm s)" "jobPost.id' (props.job p) \<noteq> []"
      and "snd (attempt h (props.job p) (formData s)) = Inr (r, u)"
      and "snd (checks h r) = Inr parsed"
  shows "completions (snd (handleSubmit h p s)) =
           (case snd (validateData parsed) of
              Inl e \<Rightarrow> [] | Inr d \<Rightarrow> completions (fst (succeed h p u d)))"
    and "alerts (snd (handleSubmit h p s)) =
           (case snd (validateData parsed) of
              Inl e \<Rightarrow> [] | Inr d \<Rightarrow> alerts (fst (succeed h p u d)))"
    and "errors (fst (handleSubmit h p s)) =
           (case snd (validateData parsed) of
              Inl e \<Rightarrow> errors (fst (submitFailed (fst (validateForm s)) e))
            | Inr d \<Rightarrow>
                (case snd (succeed h p u d) of
                   None \<Rightarrow> errors (fst (validateForm s))
                 | Some e \<Rightarrow> errors (fst (submitFailed (fst (validateForm s)) e))))"
  using assms
  by (simp_all add: handleSubmit_def Let_def split_beta completions_append completions_attempt
        completions_checks completions_validateData completions_submitFailed
        alerts_append alerts_attempt alerts_checks alerts_validateData alerts_submitFailed
        completions_Cons alerts_Cons
        split: sum.splits option.splits)


lemma snd_checks:
  "snd (checks h r) =
     (if \<not> is_json_type (contentType r) then
        Inl (Error (Text (js ''Server returned non-JSON response ('' @ show_nat (response.status r)
                          @ js ''). Please check server logs.'')))
      else case bodyJson r of
        Inl m \<Rightarrow> Inl (Error (Text (js ''Failed to parse server response. Please try again.'')))
      | Inr data \<Rightarrow>
          if \<not> ok r then
            (if truthy (member data ''error'') then
               (if unprintable (member data ''error'') then Inl (HostError (toPrimitiveMessage h))
                else Inl (Error (render (member data ''error''))))
             else Inl (Error (Text (js ''Server returned error (''
                                    @ show_nat (response.status r) @ js '')''))))
          else Inr data)"
proof -
  have "truthy data" if "truthy (member data ''error'')" for data
    using that by (cases data) simp_all
  then show ?thesis
    by (auto simp: checks_def Let_def String'_def split: sum.splits)
qed

lemma snd_validate:
  "snd (validate r) =
     (if \<not> ok r then
        Inl (Error (Text (js ''Failed to fetch applications: '' @ show_nat (response.status r))))
      else if \<not> is_json_type (contentType r) then
        Inl (Error (Text (js ''Server returned non-JSON response'')))
      else case bodyJson r of Inl m \<Rightarrow> Inl (HostError m) | Inr data \<Rightarrow> Inr data)"
  by (simp add: validate_def Let_def split: sum.splits)

lemma snd_validateData:
  "snd (validateData d) =
     (if truthy d \<and> truthy (member d ''application'') \<and> truthy (application_id d) then Inr d
      else Inl (Error (Text (js ''Server returned invalid data. Please try again.''))))"
  by (simp add: validateData_def)


lemma valid_no_errors: "snd (validateForm s) \<Longrightarrow> errors (fst (validateForm s)) = []"
  by (simp add: valid_iff)

section \<open>Facts about the filter\<close>

lemma js_includes_iff: "js_includes s sub \<longleftrightarrow> (\<exists>pre post. s = pre @ sub @ post)"
proof (induction s)
  case Nil
  show ?case by auto
next
  case (Cons c s)
  show ?case
  proof
    assume "js_includes (c # s) sub"
    then consider "prefix sub (c # s)" | "js_includes s sub" by auto
    then show "\<exists>pre post. c # s = pre @ sub @ post"
    proof cases
      case 1
      then obtain post where "c # s = sub @ post" by (auto simp: prefix_def)
      then have "c # s = [] @ sub @ post" by simp
      then show ?thesis by blast
    next
      case 2
      with Cons.IH obtain pre post where "s = pre @ sub @ post" by blast
      then have "c # s = (c # pre) @ sub @ post" by simp
      then show ?thesis by blast
    qed
  next
    assume "\<exists>pre post. c # s = pre @ sub @ post"
    then obtain pre post where eq: "c # s = pre @ sub @ post" by blast
    show "js_includes (c # s) sub"
    proof (cases pre)
      case Nil
      with eq have "prefix sub (c # s)" by (simp add: prefix_def)
      then show ?thesis by simp
    next
      case (Cons a pre')
      with eq have "s = pre' @ sub @ post" by simp
      with Cons.IH have "js_includes s sub" by blast
      then show ?thesis by simp
    qed
  qed
qed

lemma orElse_empty:
  "orElse (map_option f j) [] = (case j of None \<Rightarrow> [] | Some x \<Rightarrow> f x)"
  by (cases j) simp_all

lemma keeps_iff:
  "keeps lc f q app \<longleftrightarrow> status_predicate f app \<and> search_predicate lc q app"
  by (auto simp: keeps_def status_predicate_def search_predicate_def ci_substring_def
        js_includes_iff orElse_empty Let_def)

lemma ascii_lower_nil: "ascii_lower s = [] \<longleftrightarrow> s = []"
  by (simp add: ascii_lower_def)

section \<open>Facts about the fetch of the page\<close>

lemma console_has_append: "console_has l t (a @ b) \<longleftrightarrow> console_has l t a \<or> console_has l t b"
  by (simp add: console_has_def)

lemma console_has_Cons:
  "console_has l t (e # es) \<longleftrightarrow>
     (case e of Console l' t' args \<Rightarrow> l' = l \<and> t' = t | _ \<Rightarrow> False) \<or> console_has l t es"
  by (simp add: console_has_def)

lemma console_has_Nil: "\<not> console_has l t []"
  by (simp add: console_has_def)

lemma logged_errors_append: "logged_errors (a @ b) = logged_errors a @ logged_errors b"
  by (simp add: logged_errors_def)

lemma logged_errors_Cons:
  "logged_errors (e # es) =
     (case e of Console Err label args \<Rightarrow>
                  concat (map (\<lambda>a. case a of AThrown t \<Rightarrow> [t] | _ \<Rightarrow> []) args)
              | _ \<Rightarrow> []) @ logged_errors es"
  by (simp add: logged_errors_def)

lemma logged_errors_Nil: "logged_errors [] = []"
  by (simp add: logged_errors_def)

lemma logged_errors_validate: "logged_errors (fst (validate r)) = []"
  by (simp add: validate_def Let_def logged_errors_Cons logged_errors_Nil logged_errors_append
        split: sum.splits)

lemma fallback_log_validate:
  "\<not> console_has Log ''Using mock application data as fallback'' (fst (validate r))"
  by (simp add: validate_def Let_def console_has_Cons console_has_Nil console_has_append
        split: sum.splits)

lemma logged_errors_request: "logged_errors (fst (request_applications h token)) = []"
  by (simp add: request_applications_def Let_def split_beta logged_errors_Cons logged_errors_Nil
        logged_errors_append logged_errors_validate split: fetch_result.splits sum.splits)

lemma fallback_log_request:
  "\<not> console_has Log ''Using mock application data as fallback''
       (fst (request_applications h token))"
  by (simp add: request_applications_def Let_def split_beta console_has_Cons console_has_Nil
        console_has_append fallback_log_validate split: fetch_result.splits sum.splits)

lemma snd_request_applications:
  "snd (request_applications h token) =
     (case fetch h (get_applications token) of
        Threw m \<Rightarrow> Inl (HostError m)
      | Responded r \<Rightarrow>
          (case snd (validate r) of
             Inl e \<Rightarrow> Inl e
           | Inr data \<Rightarrow>
               if nullish data then Inl (HostError (nullReadMessage h))
               else if truthy (member data ''applications'') \<and> isArray (member data ''applications'')
               then Inr (elements (member data ''applications''))
               else Inr []))"
  by (simp add: request_applications_def Let_def split_beta split: fetch_result.splits sum.splits)

lemma fetchApplications_failed:
  assumes "getAuthToken h = Some token" "token \<noteq> []"
      and "snd (request_applications h token) = Inl e"
  shows "applications (fst (fetchApplications h s)) = map to_value (mockApplications h)"
    and "error (fst (fetchApplications h s)) = error s"
    and "\<not> isLoading (fst (fetchApplications h s))"
    and "console_has Log ''Using mock application data as fallback'' (snd (fetchApplications h s))"
    and "logged_errors (snd (fetchApplications h s)) = [e]"
    and "fst (fetchApplications h s)
           = s\<lparr>applications := map to_value (mockApplications h), isLoading := False\<rparr>"
  using assms
  by (simp_all add: fetchApplications_def Let_def split_beta console_has_Cons console_has_append
        logged_errors_Cons logged_errors_Nil logged_errors_append logged_errors_request)

lemma fetchApplications_stored:
  assumes "getAuthToken h = Some token" "token \<noteq> []"
      and "snd (request_applications h token) = Inr xs"
  shows "applications (fst (fetchApplications h s)) = xs"
    and "error (fst (fetchApplications h s)) = error s"
    and "\<not> isLoading (fst (fetchApplications h s))"
    and "\<not> console_has Log ''Using mock application data as fallback'' (snd (fetchApplications h s))"
    and "logged_errors (snd (fetchApplications h s)) = []"
  using assms
  by (simp_all add: fetchApplications_def Let_def split_beta console_has_Cons console_has_append
        console_has_Nil fallback_log_request
        logged_errors_Cons logged_errors_Nil logged_errors_append logged_errors_request)

section \<open>Properties of the status mapping\<close>

text \<open>
  C2. \<open>mapStatus\<close> is a function on all strings (total and deterministic by
  construction): \<open>pending\<close> and \<open>reviewed\<close> map to \<open>applied\<close>, \<open>interview\<close> to
  \<open>interview\<close>, \<open>rejected\<close> to \<open>rejected\<close>, \<open>accepted\<close> to \<open>offer\<close>, and every string
  outside these five maps to \<open>applied\<close>.
\<close>

theorem mapStatus_table:
  "mapStatus (js ''pending'') = Applied \<and> mapStatus (js ''reviewed'') = Applied
   \<and> mapStatus (js ''interview'') = Interview \<and> mapStatus (js ''rejected'') = Rejected
   \<and> mapStatus (js ''accepted'') = Offer
   \<and> (s \<notin> set (map js [''pending'', ''reviewed'', ''interview'', ''rejected'', ''accepted''])
        \<longrightarrow> mapStatus s = Applied)"
  by (simp add: mapStatus_def js_def)

theorem mapStatus_table_witness:
  "js ''archived'' \<notin> set (map js [''pending'', ''reviewed'', ''interview'', ''rejected'', ''accepted''])
   \<and> mapStatus (js ''archived'') = Applied"
  using mapStatus_table [of "js ''archived''"] by (simp add: js_def)

section \<open>Validation of the e-mail address\<close>






section \<open>Validation gates submission\<close>

text \<open>
  C1, as amended. When the four required fields are well-formed, \<open>validateForm\<close> stores
  no error and returns true, and \<open>handleSubmit\<close> goes on to the network (its first
  request is the one to the primary endpoint, the target job having an identifier). When
  every required field is either omitted or well-formed, the keys of the stored errors are
  exactly the omitted fields, all of them in one pass. When any error is stored,
  \<open>handleSubmit\<close> sends no request and leaves the state \<open>validateForm\<close> left. The form
  with an empty name, \<open>a@b.com\<close>, \<open>555\<close> and \<open>cv.pdf\<close> gets exactly the error
  \<open>fullName: Full name is required\<close> and no request.
\<close>

theorem validateForm_gate:
  "(well_formed (formData s) \<longrightarrow>
      validateForm s = (s\<lparr>errors := []\<rparr>, True)
      \<and> (jobPost.id' (props.job p) \<noteq> [] \<longrightarrow>
           take 1 (requests (snd (handleSubmit h p s)))
             = [post ''/api/applications'' (props.job p) (formData s)]))
   \<and> (trim (formData.email (formData t)) = [] \<or> email_pattern (formData.email (formData t)) \<longrightarrow>
        set (map fst (errors (fst (validateForm t)))) = omitted (formData t))
   \<and> (errors (fst (validateForm u)) \<noteq> [] \<longrightarrow>
        requests (snd (handleSubmit h p u)) = []
        \<and> fst (handleSubmit h p u) = fst (validateForm u))
   \<and> errors (fst (validateForm (form_of no_name)))
        = [(''fullName'', Text (js ''Full name is required''))]
   \<and> requests (snd (handleSubmit h p (form_of no_name))) = []"
proof -
  have ex: "errors (fst (validateForm (form_of no_name)))
        = [(''fullName'', Text (js ''Full name is required''))]"
    by code_simp
  then have "\<not> snd (validateForm (form_of no_name))"
    by (simp add: valid_iff)
  then have ex_req: "requests (snd (handleSubmit h p (form_of no_name))) = []"
    by (simp add: requests_handleSubmit)
  have wf: "validateForm s = (s\<lparr>errors := []\<rparr>, True)
      \<and> (jobPost.id' (props.job p) \<noteq> [] \<longrightarrow>
           take 1 (requests (snd (handleSubmit h p s)))
             = [post ''/api/applications'' (props.job p) (formData s)])"
    if "well_formed (formData s)"
    using validateForm_well_formed [OF that]
    by (simp add: requests_handleSubmit take1_attempt)
  have gate: "requests (snd (handleSubmit h p u)) = []
        \<and> fst (handleSubmit h p u) = fst (validateForm u)"
    if "errors (fst (validateForm u)) \<noteq> []"
    using that by (simp add: requests_handleSubmit valid_iff state_invalid)
  have keys: "set (map fst (errors (fst (validateForm t)))) = omitted (formData t)"
    if "trim (formData.email (formData t)) = [] \<or> email_pattern (formData.email (formData t))"
    unfolding keys_validateForm using that by auto
  from ex ex_req wf gate keys show ?thesis by blast
qed

theorem validateForm_gate_witness:
  "well_formed (formData (form_of complete))
   \<and> jobPost.id' (props.job applicant) \<noteq> []
   \<and> validateForm (form_of complete) = (form_of complete, True)
   \<and> take 1 (requests (snd (handleSubmit (host_of offline) applicant (form_of complete))))
        = [post ''/api/applications'' (props.job applicant) complete]
   \<and> email_pattern (formData.email (formData (form_of no_name)))
   \<and> set (map fst (errors (fst (validateForm (form_of no_name))))) = {''fullName''}
   \<and> errors (fst (validateForm (form_of no_name))) \<noteq> []
   \<and> requests (snd (handleSubmit (host_of offline) applicant (form_of no_name))) = []"
proof -
  have "trim (formData.fullName complete) \<noteq> [] \<and> trim (formData.email complete) \<noteq> []
        \<and> test email_regex (formData.email complete) \<and> trim (formData.phone complete) \<noteq> []
        \<and> formData.resume complete \<noteq> []"
    by code_simp
  then have wf: "well_formed (formData (form_of complete))"
    by (simp add: well_formed_def email_test_iff form_of_def)
  have ident: "jobPost.id' (props.job applicant) \<noteq> []" by code_simp
  have "test email_regex (formData.email (formData (form_of no_name)))" by code_simp
  then have pat: "email_pattern (formData.email (formData (form_of no_name)))"
    by (simp add: email_test_iff)
  have "trim (formData.fullName no_name) = [] \<and> trim (formData.email no_name) \<noteq> []
        \<and> trim (formData.phone no_name) \<noteq> [] \<and> formData.resume no_name \<noteq> []"
    by code_simp
  then have om: "omitted (formData (form_of no_name)) = {''fullName''}"
    by (simp add: omitted_def form_of_def)
  have same: "(form_of complete)\<lparr>errors := []\<rparr> = form_of complete"
    by (simp add: form_of_def)
  show ?thesis
    using validateForm_gate [where s = "form_of complete" and t = "form_of no_name"
        and u = "form_of no_name" and p = applicant and h = "host_of offline"]
      wf ident pat om same
    by (simp add: form_of_def)
qed

text \<open>
  C1 as stated fails on the form with an empty name, the address \<open>a@b\<close>, \<open>555\<close> and
  \<open>cv.pdf\<close>: it omits one required field, the name, and the errors stored have two keys,
  \<open>fullName\<close> and \<open>email\<close>, the address being present and invalid.
\<close>

theorem nameless_bad_email_counterexample:
  "omitted nameless_bad_email = {''fullName''}
   \<and> map fst (errors (fst (validateForm (form_of nameless_bad_email)))) = [''fullName'', ''email'']
   \<and> set (map fst (errors (fst (validateForm (form_of nameless_bad_email)))))
        \<noteq> omitted nameless_bad_email"
proof -
  have "trim (formData.fullName nameless_bad_email) = []
        \<and> trim (formData.email nameless_bad_email) \<noteq> []
        \<and> trim (formData.phone nameless_bad_email) \<noteq> []
        \<and> formData.resume nameless_bad_email \<noteq> []"
    by code_simp
  then have om: "omitted nameless_bad_email = {''fullName''}"
    by (simp add: omitted_def)
  have keys: "map fst (errors (fst (validateForm (form_of nameless_bad_email))))
        = [''fullName'', ''email'']"
    by code_simp
  show ?thesis unfolding om keys by simp
qed

section \<open>The fallback endpoint\<close>

text \<open>
  C4. When the form is valid, the job has an identifier and the primary request throws,
  \<open>handleSubmit\<close> sends exactly two requests, the primary one and then one to the test
  endpoint, with the same body, and a response of the test endpoint is marked
  \<open>usedFallback\<close>. If that response has status 201, a JSON content type and the body
  \<open>{application: {id: "x1"}}\<close>, completion is signalled once with \<open>x1\<close> (the callback, or
  the navigation carrying \<open>testMode=true\<close>), the notice of the test mode is shown, and no
  submission error is stored.
\<close>

theorem fallback_retry:
  assumes "snd (validateForm s)" and "jobPost.id' (props.job p) \<noteq> []"
      and "fetch h (post ''/api/applications'' (props.job p) (formData s)) = Threw e"
  shows "requests (snd (handleSubmit h p s))
           = [post ''/api/applications'' (props.job p) (formData s),
              post ''/api/test-application'' (props.job p) (formData s)]
         \<and> map body (requests (snd (handleSubmit h p s)))
           = [Some (payload (props.job p) (formData s)), Some (payload (props.job p) (formData s))]
         \<and> (fetch h (post ''/api/test-application'' (props.job p) (formData s)) = Responded r
              \<longrightarrow> snd (attempt h (props.job p) (formData s)) = Inr (r, True))
         \<and> (fetch h (post ''/api/test-application'' (props.job p) (formData s)) = Responded r
              \<and> response.status r = 201 \<and> is_json_type (contentType r)
              \<and> bodyJson r = Inr (JObj [(js ''application'', JObj [(js ''id'', JStr (js ''x1''))])])
              \<longrightarrow> completions (snd (handleSubmit h p s))
                    = [if hasOnSuccess p then OnSuccess (JStr (js ''x1''))
                       else RouterPush
                         [Text (js ''/jobs/'' @ jobPost.id' (props.job p)
                                @ js ''/application-success?applicationId=''),
                          Text (js ''x1''), Text (js ''&testMode=true'')]]
                  \<and> alerts (snd (handleSubmit h p s)) = [test_mode_notice]
                  \<and> map_of (errors (fst (handleSubmit h p s))) ''submit'' = None)"
proof -
  let ?j = "props.job p" and ?fd = "formData s"
  let ?x1 = "JObj [(js ''application'', JObj [(js ''id'', JStr (js ''x1''))])]"
  have sent: "requests (snd (handleSubmit h p s))
           = [post ''/api/applications'' ?j ?fd, post ''/api/test-application'' ?j ?fd]"
    using assms by (simp add: requests_handleSubmit requests_attempt)
  have bodies: "map body (requests (snd (handleSubmit h p s)))
           = [Some (payload ?j ?fd), Some (payload ?j ?fd)]"
    by (simp add: sent post_def)
  have marked: "snd (attempt h ?j ?fd) = Inr (r, True)"
    if "fetch h (post ''/api/test-application'' ?j ?fd) = Responded r"
    using that assms(3) by (simp add: attempt_fallback)
  have shape: "snd (validateData ?x1) = Inr ?x1"
    by (simp add: snd_validateData application_id_def js_def)
  have ident: "application_id ?x1 = JStr (js ''x1'')"
    by (simp add: application_id_def js_def)
  have scenario: "completions (snd (handleSubmit h p s))
                    = [if hasOnSuccess p then OnSuccess (JStr (js ''x1''))
                       else RouterPush
                         [Text (js ''/jobs/'' @ jobPost.id' ?j
                                @ js ''/application-success?applicationId=''),
                          Text (js ''x1''), Text (js ''&testMode=true'')]]
                  \<and> alerts (snd (handleSubmit h p s)) = [test_mode_notice]
                  \<and> map_of (errors (fst (handleSubmit h p s))) ''submit'' = None"
    if r: "fetch h (post ''/api/test-application'' ?j ?fd) = Responded r"
      and c: "response.status r = 201" "is_json_type (contentType r)" "bodyJson r = Inr ?x1"
  proof -
    have parsed: "snd (checks h r) = Inr ?x1"
      using c by (simp add: snd_checks ok_def)
    note facts = handleSubmit_sent [OF assms(1,2) marked [OF r] parsed]
    show ?thesis
      unfolding facts shape
      by (simp add: completions_succeed alerts_succeed snd_succeed ident
            valid_no_errors [OF assms(1)])
  qed
  from sent bodies marked scenario show ?thesis by blast
qed

theorem fallback_retry_witness:
  "snd (validateForm (form_of complete))
   \<and> jobPost.id' (props.job applicant) \<noteq> []
   \<and> fetch (host_of (primary_down created_x1))
        (post ''/api/applications'' (props.job applicant) complete) = Threw (js ''Failed to fetch'')
   \<and> fetch (host_of (primary_down created_x1))
        (post ''/api/test-application'' (props.job applicant) complete) = Responded created_x1
   \<and> requests (snd (handleSubmit (host_of (primary_down created_x1)) applicant (form_of complete)))
        = [post ''/api/applications'' (props.job applicant) complete,
           post ''/api/test-application'' (props.job applicant) complete]
   \<and> completions (snd (handleSubmit (host_of (primary_down created_x1)) applicant (form_of complete)))
        = [OnSuccess (JStr (js ''x1''))]
   \<and> alerts (snd (handleSubmit (host_of (primary_down created_x1)) applicant (form_of complete)))
        = [test_mode_notice]"
proof -
  let ?h = "host_of (primary_down created_x1)"
  have 1: "snd (validateForm (form_of complete))" by code_simp
  have 2: "jobPost.id' (props.job applicant) \<noteq> []" by code_simp
  have 3: "fetch ?h (post ''/api/applications'' (props.job applicant) (formData (form_of complete)))
        = Threw (js ''Failed to fetch'')" by code_simp
  have 4: "fetch ?h (post ''/api/test-application'' (props.job applicant) (formData (form_of complete)))
        = Responded created_x1" by code_simp
  have 5: "response.status created_x1 = 201 \<and> is_json_type (contentType created_x1)
        \<and> bodyJson created_x1 = Inr (JObj [(js ''application'', JObj [(js ''id'', JStr (js ''x1''))])])"
    by code_simp
  have 6: "hasOnSuccess applicant" by code_simp
  have fd: "formData (form_of complete) = complete" by (simp add: form_of_def)
  show ?thesis
    using fallback_retry [OF 1 2 3, of created_x1] 1 2 3 4 5 6 by (simp add: fd)
qed

section \<open>The shape of a successful response\<close>




section \<open>The two validations of a response\<close>




section \<open>Filtering\<close>

text \<open>
  C3. For every list of records, every filter and every query, the filtered list is the
  list of the records that satisfy both the status predicate (\<open>all\<close> accepts every record,
  any other filter is compared with the mapped status) and the search predicate (the query
  is empty, or it is a substring, letter case apart, of the title, the company or the
  location); filtering the filtered list again with the same filter and query leaves it
  unchanged.
\<close>

theorem filter_is_conjunction:
  "filteredApplications lc f q apps
     = filter (\<lambda>app. status_predicate f app \<and> search_predicate lc q app) apps
   \<and> filteredApplications lc f q (filteredApplications lc f q apps)
     = filteredApplications lc f q apps"
proof -
  have "keeps lc f q = (\<lambda>app. status_predicate f app \<and> search_predicate lc q app)"
    by (rule ext) (rule keeps_iff)
  then show ?thesis by (simp add: filteredApplications_def)
qed

section \<open>Records without a job\<close>

text \<open>
  C9. A record whose \<open>job\<close> is \<open>null\<close> is searched over empty strings: whatever the
  filter, no non-empty query keeps it, so it is absent from the filtered list, while its
  row in the table shows \<open>Unknown Job\<close>, \<open>Unknown Company\<close> and \<open>Unknown Location\<close>; a
  query equal to one of these placeholders does not find it either. \<open>toLowerCase\<close> is the
  host's: it maps the empty string to itself and the query to a non-empty string.
\<close>

theorem null_job_never_found:
  assumes "application.job app = None" and "q \<noteq> []"
      and "lc [] = []" and "lc q \<noteq> []"
  shows "\<not> keeps lc f q app
         \<and> app \<notin> set (filteredApplications lc f q apps)
         \<and> map (\<lambda>row. (table_row.title row, table_row.company row, table_row.location row))
              (formatApplicationsForTable fmt [app])
            = [(js ''Unknown Job'', js ''Unknown Company'', js ''Unknown Location'')]"
  using assms
  by (simp add: keeps_def filteredApplications_def formatApplicationsForTable_def Let_def)

theorem null_job_never_found_witness:
  "application.job ghost = None \<and> js ''Unknown Job'' \<noteq> []
   \<and> ascii_lower [] = [] \<and> ascii_lower (js ''Unknown Job'') \<noteq> []
   \<and> ghost \<notin> set (filteredApplications ascii_lower All (js ''Unknown Job'') [ghost])
   \<and> map (\<lambda>row. (table_row.title row, table_row.company row, table_row.location row))
        (formatApplicationsForTable id [ghost])
      = [(js ''Unknown Job'', js ''Unknown Company'', js ''Unknown Location'')]"
proof -
  have 1: "application.job ghost = None" by (simp add: ghost_def)
  have 2: "js ''Unknown Job'' \<noteq> []" by (simp add: js_def)
  have 3: "ascii_lower [] = []" by (simp add: ascii_lower_def)
  have 4: "ascii_lower (js ''Unknown Job'') \<noteq> []" using 2 by (simp add: ascii_lower_nil)
  show ?thesis
    using null_job_never_found [OF 1 2 3 4, of All "[ghost]" id] 1 2 3 4 by simp
qed

section \<open>Failures of the fetch\<close>

text \<open>
  C7, as amended. With a token, whenever the fetch fails (the network fails, the status is
  not a success, the content type is not JSON, or the body does not parse), the list
  becomes the two mock applications \<open>app1\<close> and \<open>app2\<close>; that they are mock data is said
  by a console entry, and the state of the page changes in nothing else than the list and
  the end of loading: the page-level error is left as it was; the console holds the error
  of the failure. In particular a success status with a content
  type that is not JSON, such as \<open>text/html\<close>, logs \<open>Server returned non-JSON response\<close>,
  an error different from those of the other causes.
\<close>

theorem fetch_failure_fallback:
  assumes "getAuthToken h = Some token" and "token \<noteq> []"
      and "failed (fetch h (get_applications token))"
  shows "applications (fst (fetchApplications h s))
           = [JObj [(js ''id'', JStr (js ''app1'')), (js ''jobId'', JStr (js ''1'')),
                    (js ''fullName'', JStr (js ''John Doe'')),
                    (js ''email'', JStr (js ''john@example.com'')),
                    (js ''phone'', JStr (js ''1234567890'')),
                    (js ''resume'', JStr (js ''resume.pdf'')),
                    (js ''appliedDate'', JStr (nowISO h)),
                    (js ''status'', JStr (js ''pending'')),
                    (js ''job'', JObj [(js ''title'', JStr (js ''Frontend Developer'')),
                                       (js ''company'', JStr (js ''Tech Corp'')),
                                       (js ''location'', JStr (js ''Remote'')),
                                       (js ''type'', JStr (js ''Full-time''))])],
              JObj [(js ''id'', JStr (js ''app2'')), (js ''jobId'', JStr (js ''2'')),
                    (js ''fullName'', JStr (js ''John Doe'')),
                    (js ''email'', JStr (js ''john@example.com'')),
                    (js ''phone'', JStr (js ''1234567890'')),
                    (js ''resume'', JStr (js ''resume.pdf'')),
                    (js ''appliedDate'', JStr (weekAgoISO h)),
                    (js ''status'', JStr (js ''interview'')),
                    (js ''job'', JObj [(js ''title'', JStr (js ''Backend Developer'')),
                                       (js ''company'', JStr (js ''Software Inc'')),
                                       (js ''location'', JStr (js ''New York'')),
                                       (js ''type'', JStr (js ''Full-time''))])]]
         \<and> applications (fst (fetchApplications h s)) \<noteq> []
         \<and> fst (fetchApplications h s)
             = s\<lparr>applications := applications (fst (fetchApplications h s)), isLoading := False\<rparr>
         \<and> error (fst (fetchApplications h s)) = error s
         \<and> \<not> isLoading (fst (fetchApplications h s))
         \<and> console_has Log ''Using mock application data as fallback'' (snd (fetchApplications h s))
         \<and> console_has Err ''API fetch error:'' (snd (fetchApplications h s))
         \<and> (fetch h (get_applications token) = Threw m
              \<longrightarrow> logged_errors (snd (fetchApplications h s)) = [HostError m])
         \<and> (fetch h (get_applications token) = Responded r \<and> \<not> ok r
              \<longrightarrow> logged_errors (snd (fetchApplications h s))
                    = [Error (Text (js ''Failed to fetch applications: ''
                                    @ show_nat (response.status r)))])
         \<and> (fetch h (get_applications token) = Responded r \<and> ok r
              \<and> \<not> is_json_type (contentType r)
              \<longrightarrow> logged_errors (snd (fetchApplications h s))
                    = [Error (Text (js ''Server returned non-JSON response''))])
         \<and> (fetch h (get_applications token) = Responded r \<and> ok r
              \<and> is_json_type (contentType r) \<and> bodyJson r = Inl m
              \<longrightarrow> logged_errors (snd (fetchApplications h s)) = [HostError m])
         \<and> Error (Text (js ''Server returned non-JSON response''))
              \<noteq> Error (Text (js ''Failed to fetch applications: '' @ show_nat n))
         \<and> Error (Text (js ''Server returned non-JSON response'')) \<noteq> HostError m"
proof -
  have "\<exists>e. snd (request_applications h token) = Inl e"
  proof (cases "fetch h (get_applications token)")
    case (Threw m)
    then show ?thesis by (simp add: snd_request_applications)
  next
    case (Responded r)
    with assms(3) have "\<not> ok r \<or> \<not> is_json_type (contentType r) \<or> (\<exists>m. bodyJson r = Inl m)"
      by (simp add: failed_def split: sum.splits)
    then have "\<exists>e. snd (validate r) = Inl e"
      by (auto simp: snd_validate)
    with Responded show ?thesis
      by (auto simp: snd_request_applications)
  qed
  then obtain e where e: "snd (request_applications h token) = Inl e" ..
  note facts = fetchApplications_failed [OF assms(1,2) e]
  have shown: "console_has Err ''API fetch error:'' (snd (fetchApplications h s))"
    using assms(1,2) e
    by (simp add: fetchApplications_def Let_def split_beta console_has_Cons console_has_append)
  have net: "e = HostError m" if "fetch h (get_applications token) = Threw m"
    using e that by (simp add: snd_request_applications)
  have st: "e = Error (Text (js ''Failed to fetch applications: '' @ show_nat (response.status r)))"
    if "fetch h (get_applications token) = Responded r" "\<not> ok r"
    using e that by (simp add: snd_request_applications snd_validate)
  have ct: "e = Error (Text (js ''Server returned non-JSON response''))"
    if "fetch h (get_applications token) = Responded r" "ok r" "\<not> is_json_type (contentType r)"
    using e that by (simp add: snd_request_applications snd_validate)
  have pa: "e = HostError m"
    if "fetch h (get_applications token) = Responded r" "ok r" "is_json_type (contentType r)"
       "bodyJson r = Inl m"
    using e that by (simp add: snd_request_applications snd_validate)
  have distinct: "Error (Text (js ''Server returned non-JSON response''))
              \<noteq> Error (Text (js ''Failed to fetch applications: '' @ show_nat n))"
    by (simp add: js_def)
  have dataset: "map to_value (mockApplications h)
           = [JObj [(js ''id'', JStr (js ''app1'')), (js ''jobId'', JStr (js ''1'')),
                    (js ''fullName'', JStr (js ''John Doe'')),
                    (js ''email'', JStr (js ''john@example.com'')),
                    (js ''phone'', JStr (js ''1234567890'')),
                    (js ''resume'', JStr (js ''resume.pdf'')),
                    (js ''appliedDate'', JStr (nowISO h)),
                    (js ''status'', JStr (js ''pending'')),
                    (js ''job'', JObj [(js ''title'', JStr (js ''Frontend Developer'')),
                                       (js ''company'', JStr (js ''Tech Corp'')),
                                       (js ''location'', JStr (js ''Remote'')),
                                       (js ''type'', JStr (js ''Full-time''))])],
              JObj [(js ''id'', JStr (js ''app2'')), (js ''jobId'', JStr (js ''2'')),
                    (js ''fullName'', JStr (js ''John Doe'')),
                    (js ''email'', JStr (js ''john@example.com'')),
                    (js ''phone'', JStr (js ''1234567890'')),
                    (js ''resume'', JStr (js ''resume.pdf'')),
                    (js ''appliedDate'', JStr (weekAgoISO h)),
                    (js ''status'', JStr (js ''interview'')),
                    (js ''job'', JObj [(js ''title'', JStr (js ''Backend Developer'')),
                                       (js ''company'', JStr (js ''Software Inc'')),
                                       (js ''location'', JStr (js ''New York'')),
                                       (js ''type'', JStr (js ''Full-time''))])]]"
    by (simp add: mockApplications_def to_value_def job_to_value_def optional_def)
  note stored = facts(1) [unfolded dataset]
  have rest: "fst (fetchApplications h s)
             = s\<lparr>applications := applications (fst (fetchApplications h s)), isLoading := False\<rparr>"
    using facts(1,6) by simp
  show ?thesis
    unfolding stored using rest [unfolded stored] facts(2-5) shown net st ct pa distinct by simp
qed

theorem fetch_failure_fallback_witness:
  "getAuthToken (host_of (answers (html_page 200))) = Some (js ''token'') \<and> js ''token'' \<noteq> []
   \<and> failed (fetch (host_of (answers (html_page 200))) (get_applications (js ''token'')))
   \<and> fetch (host_of (answers (html_page 200))) (get_applications (js ''token''))
        = Responded (html_page 200)
   \<and> ok (html_page 200) \<and> \<not> is_json_type (contentType (html_page 200))
   \<and> applications (fst (fetchApplications (host_of (answers (html_page 200))) initial_page)) \<noteq> []
   \<and> logged_errors (snd (fetchApplications (host_of (answers (html_page 200))) initial_page))
        = [Error (Text (js ''Server returned non-JSON response''))]"
proof -
  let ?h = "host_of (answers (html_page 200))"
  have 1: "getAuthToken ?h = Some (js ''token'')" by code_simp
  have 2: "js ''token'' \<noteq> []" by code_simp
  have 3: "failed (fetch ?h (get_applications (js ''token'')))" by code_simp
  have 4: "fetch ?h (get_applications (js ''token'')) = Responded (html_page 200)" by code_simp
  have 5: "ok (html_page 200) \<and> \<not> is_json_type (contentType (html_page 200))" by code_simp
  show ?thesis
    using fetch_failure_fallback [OF 1 2 3, where s = initial_page and r = "html_page 200"
        and m = "[]" and n = 0] 1 2 3 4 5
    by blast
qed

text \<open>
  C7 as stated fails on a response of status 200 and content type \<open>text/html\<close>: the state
  it leaves is the state left by a genuine response that carries the same two records as
  the user's own, with no page-level error, so that nothing in the page marks the
  fallback. And a \<open>text/html\<close> response of status 500 logs the same error as a JSON
  response of status 500, not a distinct one.
\<close>

theorem unmarked_fallback_counterexample:
  "fst (fetchApplications (host_of (answers (html_page 200))) initial_page)
     = fst (fetchApplications (host_of (answers (genuine (host_of offline)))) initial_page)
   \<and> error (fst (fetchApplications (host_of (answers (html_page 200))) initial_page)) = None
   \<and> logged_errors (snd (fetchApplications (host_of (answers (html_page 500))) initial_page))
     = logged_errors (snd (fetchApplications (host_of (answers error_500)) initial_page))"
  by code_simp

section \<open>A body without an array of applications\<close>

text \<open>
  C10, as amended. With a token, when the response has a success status, a JSON content
  type and a body that parses to a value other than \<open>null\<close>, and the \<open>applications\<close> of
  that value is absent or not an array, the list becomes empty: the mock applications are
  not used, the page-level error is left as it was, and no error is logged.
\<close>

theorem no_array_empty_list:
  assumes "getAuthToken h = Some token" and "token \<noteq> []"
      and "fetch h (get_applications token) = Responded r"
      and "ok r" and "is_json_type (contentType r)" and "bodyJson r = Inr data"
      and "\<not> nullish data"
      and "\<not> isArray (member data ''applications'')"
  shows "applications (fst (fetchApplications h s)) = []
         \<and> error (fst (fetchApplications h s)) = error s
         \<and> \<not> isLoading (fst (fetchApplications h s))
         \<and> \<not> console_has Log ''Using mock application data as fallback'' (snd (fetchApplications h s))
         \<and> logged_errors (snd (fetchApplications h s)) = []"
proof -
  have "snd (request_applications h token) = Inr []"
    using assms(3-8) by (simp add: snd_request_applications snd_validate)
  from fetchApplications_stored [OF assms(1,2) this] show ?thesis by simp
qed

theorem no_array_empty_list_witness:
  "getAuthToken (host_of (answers (json_response 200 (js ''{}'') (JObj [])))) = Some (js ''token'')
   \<and> js ''token'' \<noteq> []
   \<and> fetch (host_of (answers (json_response 200 (js ''{}'') (JObj [])))) (get_applications (js ''token''))
        = Responded (json_response 200 (js ''{}'') (JObj []))
   \<and> ok (json_response 200 (js ''{}'') (JObj []))
   \<and> is_json_type (contentType (json_response 200 (js ''{}'') (JObj [])))
   \<and> bodyJson (json_response 200 (js ''{}'') (JObj [])) = Inr (JObj [])
   \<and> \<not> nullish (JObj []) \<and> \<not> isArray (member (JObj []) ''applications'')
   \<and> applications (fst (fetchApplications (host_of (answers (json_response 200 (js ''{}'') (JObj []))))
        (initial_page\<lparr>applications := [JNull]\<rparr>))) = []"
proof -
  let ?r = "json_response 200 (js ''{}'') (JObj [])"
  let ?h = "host_of (answers ?r)"
  have 1: "getAuthToken ?h = Some (js ''token'')" by code_simp
  have 2: "js ''token'' \<noteq> []" by code_simp
  have 3: "fetch ?h (get_applications (js ''token'')) = Responded ?r" by code_simp
  have 4: "ok ?r" by code_simp
  have 5: "is_json_type (contentType ?r)" by code_simp
  have 6: "bodyJson ?r = Inr (JObj [])" by code_simp
  have 7: "\<not> nullish (JObj [])" by code_simp
  have 8: "\<not> isArray (member (JObj []) ''applications'')" by code_simp
  show ?thesis
    using no_array_empty_list [OF 1 2 3 4 5 6 7 8, of "initial_page\<lparr>applications := [JNull]\<rparr>"]
      1 2 3 4 5 6 7 8 by blast
qed

text \<open>
  C10 as stated fails on the body \<open>null\<close>, which parses and has no \<open>applications\<close>:
  reading the property throws, the inner \<open>catch\<close> runs, and the list becomes the mock
  applications, not the empty list.
\<close>

theorem null_body_counterexample:
  "ok null_200 \<and> is_json_type (contentType null_200) \<and> bodyJson null_200 = Inr JNull
   \<and> applications (fst (fetchApplications (host_of (answers null_200)) initial_page)) \<noteq> []
   \<and> applications (fst (fetchApplications (host_of (answers null_200)) initial_page))
        = map to_value (mockApplications (host_of (answers null_200)))
   \<and> console_has Log ''Using mock application data as fallback''
        (snd (fetchApplications (host_of (answers null_200)) initial_page))"
  by code_simp

end
